theory Spec2Isabelle
  imports Main
begin

section \<open>The upload endpoint of \<^verbatim>\<open>server.js\<close>\<close>

text \<open>
  The repository is one Express handler, \<^verbatim>\<open>POST /upload\<close> (lines 83 to 134 of
  \<^verbatim>\<open>src/server.js\<close>). It validates a multipart submission, uploads every file to a
  Google Drive folder, appends one row to a Google spreadsheet and answers with JSON.
  The handler is embedded as a function from the request and the world before the
  request to the world after it. Strings are lists of bytes (UTF-8).
\<close>

subsection \<open>Request and response data\<close>

text \<open>A file object as multer hands it to the handler (\<^verbatim>\<open>req.files[i]\<close>).\<close>

record uploaded_file =
  originalname :: string
  mimetype :: string
  size_bytes :: nat
  path :: string

text \<open>
  \<^verbatim>\<open>req.body\<close>: a text field of the form is a string, or is missing
  (\<^verbatim>\<open>undefined\<close>). The handler reads \<^verbatim>\<open>req.body\<close> only after it has seen at
  least one file, that is, after multer has parsed a multipart body and created the
  object; so the object itself is always there when it is read.
\<close>

record form_body =
  firstName :: "string option"
  lastName :: "string option"
  phone :: "string option"

text \<open>\<^verbatim>\<open>req.files\<close> is \<^verbatim>\<open>undefined\<close> (\<open>None\<close>) when the request had no multipart body.\<close>

record request =
  files :: "uploaded_file list option"
  body :: form_body

text \<open>A thrown value: an error object whose \<^verbatim>\<open>message\<close> may be missing.\<close>

datatype js_error = JsError (message: "string option")

text \<open>An element of the \<^verbatim>\<open>uploaded\<close> array: \<^verbatim>\<open>{ id, name, link }\<close>.\<close>

record upload_result =
  id' :: string
  name :: string
  link :: string

text \<open>
  The two shapes of JSON body the handler sends:
  \<^verbatim>\<open>{ success:true, uploaded }\<close> and \<^verbatim>\<open>{ success:false, error }\<close>.
\<close>

datatype json_body = Success "upload_result list" | Failure string

record response =
  status :: nat
  json :: json_body

subsection \<open>The world outside the handler\<close>

text \<open>The calls the handler makes on the two Google clients, with their arguments.\<close>

datatype call =
    DriveFilesCreate string string string string
      \<comment> \<open>\<^verbatim>\<open>resource.name\<close>, \<^verbatim>\<open>resource.parents[0]\<close>, \<^verbatim>\<open>media.mimeType\<close>, path of the stream\<close>
  | DrivePermissionsCreate string string string
      \<comment> \<open>\<^verbatim>\<open>fileId\<close>, \<^verbatim>\<open>role\<close>, \<^verbatim>\<open>type\<close>\<close>
  | DriveFilesGet string string
      \<comment> \<open>\<^verbatim>\<open>fileId\<close>, \<^verbatim>\<open>fields\<close>\<close>
  | SheetsValuesAppend string string string "string list list"
      \<comment> \<open>\<^verbatim>\<open>spreadsheetId\<close>, \<^verbatim>\<open>range\<close>, \<^verbatim>\<open>valueInputOption\<close>, \<^verbatim>\<open>requestBody.values\<close>\<close>

datatype log_line =
    ConsoleWarn string "string option"
  | ConsoleError string js_error

text \<open>An object stored in the Drive folder.\<close>

record drive_object =
  obj_id :: string
  obj_name :: string
  obj_parent :: string
  obj_mimeType :: string

text \<open>
  The state the handler acts on: the objects in remote storage, the rows of the
  spreadsheet, the temporary files on the local disk (by path), the calls made on the
  remote services so far, the console, the responses sent on \<^verbatim>\<open>res\<close>, and the
  read streams that were created and that no client call has taken over (by path).
\<close>

record world =
  drive_folder :: "drive_object list"
  spreadsheet :: "string list list"
  tmp_uploads :: "string set"
  calls :: "call list"
  console :: "log_line list"
  sent :: "response list"
  streams :: "string list"

text \<open>The \<^verbatim>\<open>data\<close> of a \<^verbatim>\<open>drive.files.get\<close> answer.\<close>

record file_meta =
  data_id :: string
  data_name :: string
  webViewLink :: "string option"

text \<open>
  What the handler does not decide: the configuration read at start-up, whether the
  Google clients \<^verbatim>\<open>drive\<close> and \<^verbatim>\<open>sheets\<close> have been assigned yet (both are assigned in
  one callback, lines 65 to 68), the outcome of every remote call, and the clock. The
  handler makes at most one call of each kind per file, so the outcomes of the Drive
  calls are indexed by the position of the file in \<^verbatim>\<open>req.files\<close>. \<open>Inl e\<close> and
  \<open>Some e\<close> mean that the promise is rejected with \<open>e\<close>.
\<close>

record env =
  DRIVE_FOLDER_ID :: string
  SHEETS_ID :: string
  client_ready :: bool
  create_result :: "nat \<Rightarrow> js_error + string"
  permission_result :: "nat \<Rightarrow> js_error option"
  get_result :: "nat \<Rightarrow> js_error + file_meta"
  append_result :: "js_error option"
  now_iso :: string

subsection \<open>JavaScript operators the handler uses\<close>

text \<open>Truthiness of a value that is a string or \<^verbatim>\<open>undefined\<close>.\<close>

definition truthy :: "string option \<Rightarrow> bool" where
  "truthy v = (case v of None \<Rightarrow> False | Some s \<Rightarrow> s \<noteq> [])"

text \<open>\<^verbatim>\<open>a || b\<close> for such a value \<open>a\<close> and a string \<open>b\<close>.\<close>

definition or_else :: "string option \<Rightarrow> string \<Rightarrow> string" where
  "or_else a b = (case a of None \<Rightarrow> b | Some s \<Rightarrow> if s \<noteq> [] then s else b)"

text \<open>\<^verbatim>\<open>Array.prototype.join\<close> on an array of strings.\<close>

fun join :: "string \<Rightarrow> string list \<Rightarrow> string" where
  "join sep [] = []"
| "join sep [x] = x"
| "join sep (x # y # ys) = x @ sep @ join sep (y # ys)"

text \<open>\<^verbatim>\<open>Number.prototype.toString\<close> on an array length: decimal digits, no sign.\<close>

definition digit_char :: "nat \<Rightarrow> char" where
  "digit_char d = ''0123456789'' ! d"

function toString :: "nat \<Rightarrow> string" where
  "toString n = (if n < 10 then [digit_char n] else toString (n div 10) @ [digit_char (n mod 10)])"
  by pat_completeness auto
termination
  by (relation "measure (\<lambda>n. n)") auto

declare toString.simps [simp del]

text \<open>Reading a string of decimal digits back, most significant digit first.\<close>

definition digit_value :: "char \<Rightarrow> nat" where
  "digit_value c = length (takeWhile (\<lambda>x. x \<noteq> c) ''0123456789'')"

definition parse_decimal :: "string \<Rightarrow> nat" where
  "parse_decimal s = foldl (\<lambda>acc c. 10 * acc + digit_value c) 0 s"

subsection \<open>Local and remote operations\<close>

text \<open>
  \<^verbatim>\<open>fs.unlinkSync(p)\<close> removes the file, and throws when there is none. Every call
  site wraps it as \<^verbatim>\<open>try{ fs.unlinkSync(f.path) }catch(e){}\<close>, which is \<open>try_unlink\<close>.
\<close>

definition unlinkSync :: "string \<Rightarrow> world \<Rightarrow> js_error option \<times> world" where
  "unlinkSync p w =
     (if p \<in> tmp_uploads w then (None, w\<lparr>tmp_uploads := tmp_uploads w - {p}\<rparr>)
      else (Some (JsError (Some ''ENOENT: no such file or directory'')), w))"

definition try_unlink :: "uploaded_file \<Rightarrow> world \<Rightarrow> world" where
  "try_unlink f w = snd (unlinkSync (path f) w)"

text \<open>\<^verbatim>\<open>files.forEach(f=> { try{ fs.unlinkSync(f.path) }catch(e){} })\<close>\<close>

definition forEach_unlink :: "uploaded_file list \<Rightarrow> world \<Rightarrow> world" where
  "forEach_unlink fs w = fold try_unlink fs w"

text \<open>\<^verbatim>\<open>res.status(code).json(b)\<close>; \<^verbatim>\<open>res.json(b)\<close> is the same with status 200.\<close>

definition respond :: "nat \<Rightarrow> json_body \<Rightarrow> world \<Rightarrow> world" where
  "respond code b w = w\<lparr>sent := sent w @ [\<lparr>status = code, json = b\<rparr>]\<rparr>"

text \<open>
  Reading the property \<open>prop\<close> of \<^verbatim>\<open>drive\<close> or \<^verbatim>\<open>sheets\<close> while it is still
  \<^verbatim>\<open>undefined\<close>: the \<^verbatim>\<open>TypeError\<close> of the runtime, which names the property in
  single quotes.
\<close>

definition quoted :: "string \<Rightarrow> string" where
  "quoted s = [CHR 0x27] @ s @ [CHR 0x27]"

definition not_ready_error :: "string \<Rightarrow> js_error" where
  "not_ready_error prop =
     JsError (Some (''Cannot read properties of undefined (reading '' @ quoted prop @ '')''))"

text \<open>
  \<^verbatim>\<open>fs.createReadStream(p)\<close> (line 100) returns at once; the file is opened later,
  after the synchronous code that follows has run. Until a client call takes the
  stream over, nothing reads it and nothing listens to its errors.
\<close>

definition createReadStream :: "string \<Rightarrow> world \<Rightarrow> world" where
  "createReadStream p w = w\<lparr>streams := streams w @ [p]\<rparr>"

text \<open>
  A call on a client that exists takes over the stream it is given as \<^verbatim>\<open>media.body\<close>
  (the one created last for that path): the client reads it and handles its errors.
\<close>

definition take_over_stream :: "string \<Rightarrow> world \<Rightarrow> world" where
  "take_over_stream p w = w\<lparr>streams := rev (remove1 p (rev (streams w)))\<rparr>"

text \<open>
  What happens once the handler's code has run and the streams left over are opened: a
  stream whose file is gone emits an error that has no listener, which the runtime
  raises as an uncaught exception.
\<close>

definition unhandled_errors :: "world \<Rightarrow> js_error list" where
  "unhandled_errors w =
     map (\<lambda>p. JsError (Some (''ENOENT: no such file or directory, open '' @ quoted p)))
       (filter (\<lambda>p. p \<notin> tmp_uploads w) (streams w))"

text \<open>
  \<^verbatim>\<open>drive.files.create({ resource: fileMetadata, media: media, fields: 'id' })\<close> for
  the file at position \<open>i\<close>, whose stream is \<^verbatim>\<open>media.body\<close>. A call that succeeds
  stores one object and returns its identifier; a call that is rejected stores nothing.
\<close>

definition drive_files_create ::
  "env \<Rightarrow> nat \<Rightarrow> uploaded_file \<Rightarrow> world \<Rightarrow> (js_error + string) \<times> world" where
  "drive_files_create e i f w =
     (if \<not> client_ready e then (Inl (not_ready_error ''files''), w)
      else
        let w1 = take_over_stream (path f) (w\<lparr>calls := calls w @
                   [DriveFilesCreate (originalname f) (DRIVE_FOLDER_ID e) (mimetype f) (path f)]\<rparr>)
        in case create_result e i of
             Inl err \<Rightarrow> (Inl err, w1)
           | Inr fileId \<Rightarrow>
               (Inr fileId,
                w1\<lparr>drive_folder := drive_folder w1 @
                     [\<lparr>obj_id = fileId, obj_name = originalname f,
                       obj_parent = DRIVE_FOLDER_ID e, obj_mimeType = mimetype f\<rparr>]\<rparr>))"

text \<open>\<^verbatim>\<open>drive.permissions.create({ fileId, requestBody: { role: 'reader', type: 'anyone' } })\<close>\<close>

definition drive_permissions_create ::
  "env \<Rightarrow> nat \<Rightarrow> string \<Rightarrow> world \<Rightarrow> js_error option \<times> world" where
  "drive_permissions_create e i fileId w =
     (if \<not> client_ready e then (Some (not_ready_error ''permissions''), w)
      else (permission_result e i,
            w\<lparr>calls := calls w @ [DrivePermissionsCreate fileId ''reader'' ''anyone'']\<rparr>))"

text \<open>\<^verbatim>\<open>drive.files.get({ fileId, fields: 'id, name, webViewLink, webContentLink' })\<close>\<close>

definition drive_files_get ::
  "env \<Rightarrow> nat \<Rightarrow> string \<Rightarrow> world \<Rightarrow> (js_error + file_meta) \<times> world" where
  "drive_files_get e i fileId w =
     (if \<not> client_ready e then (Inl (not_ready_error ''files''), w)
      else (get_result e i,
            w\<lparr>calls := calls w @
                 [DriveFilesGet fileId ''id, name, webViewLink, webContentLink'']\<rparr>))"

text \<open>
  \<^verbatim>\<open>sheets.spreadsheets.values.append({ spreadsheetId: SHEETS_ID, range: 'Sheet1!A:Z',
  valueInputOption: 'USER_ENTERED', requestBody: { values: [row] } })\<close>. A call that
  succeeds adds the row to the sheet; a call that is rejected adds nothing.
\<close>

definition sheets_values_append :: "env \<Rightarrow> string list \<Rightarrow> world \<Rightarrow> js_error option \<times> world" where
  "sheets_values_append e row w =
     (if \<not> client_ready e then (Some (not_ready_error ''spreadsheets''), w)
      else
        let w1 = w\<lparr>calls := calls w @
                   [SheetsValuesAppend (SHEETS_ID e) ''Sheet1!A:Z'' ''USER_ENTERED'' [row]]\<rparr>
        in case append_result e of
             Some err \<Rightarrow> (Some err, w1)
           | None \<Rightarrow> (None, w1\<lparr>spreadsheet := spreadsheet w1 @ [row]\<rparr>))"

subsection \<open>The handler\<close>

text \<open>The element pushed on \<^verbatim>\<open>uploaded\<close> (line 110).\<close>

definition make_result :: "file_meta \<Rightarrow> upload_result" where
  "make_result m =
     \<lparr>id' = data_id m, name = data_name m,
      link = or_else (webViewLink m) (''https://drive.google.com/uc?id='' @ data_id m)\<rparr>"

text \<open>
  One pass through the body of the loop (lines 99 to 112) for file \<open>f\<close> at position
  \<open>i\<close>: \<open>Inl err\<close> when a statement throws \<open>err\<close>, else the element to push, with the
  world after the temporary file has been unlinked. The stream of line 100 is created
  before the create call of line 101 is evaluated.
\<close>

definition loop_body :: "env \<Rightarrow> nat \<Rightarrow> uploaded_file \<Rightarrow> world \<Rightarrow> (js_error + upload_result) \<times> world" where
  "loop_body e i f w =
     (case drive_files_create e i f (createReadStream (path f) w) of
        (Inl err, w1) \<Rightarrow> (Inl err, w1)
      | (Inr fileId, w1) \<Rightarrow>
          let w2 = (case drive_permissions_create e i fileId w1 of
                      (Some pe, w') \<Rightarrow>
                        w'\<lparr>console := console w' @ [ConsoleWarn ''Permission set failed'' (message pe)]\<rparr>
                    | (None, w') \<Rightarrow> w')
          in (case drive_files_get e i fileId w2 of
                (Inl err, w3) \<Rightarrow> (Inl err, w3)
              | (Inr meta, w3) \<Rightarrow> (Inr (make_result meta), try_unlink f w3)))"

text \<open>
  \<^verbatim>\<open>for(const f of files){ ... }\<close> from position \<open>i\<close> on, with the array \<^verbatim>\<open>uploaded\<close>
  passed along. The result is the error thrown (if any), the array as it stands when
  the loop is left, and the world.
\<close>

fun upload_loop ::
  "env \<Rightarrow> nat \<Rightarrow> uploaded_file list \<Rightarrow> upload_result list \<Rightarrow> world
    \<Rightarrow> js_error option \<times> upload_result list \<times> world" where
  "upload_loop e i [] uploaded w = (None, uploaded, w)"
| "upload_loop e i (f # fs) uploaded w =
     (case loop_body e i f w of
        (Inl err, w1) \<Rightarrow> (Some err, uploaded, w1)
      | (Inr u, w1) \<Rightarrow> upload_loop e (Suc i) fs (uploaded @ [u]) w1)"

text \<open>The row built on lines 116 to 119.\<close>

definition make_row :: "env \<Rightarrow> form_body \<Rightarrow> upload_result list \<Rightarrow> string list" where
  "make_row e b uploaded =
     (let now = now_iso e;
          fileNames = join '' | '' (map name uploaded);
          fileLinks = join '' | '' (map link uploaded)
      in [now, the (firstName b), the (lastName b), the (phone b),
          toString (length uploaded), fileNames, fileLinks])"

text \<open>
  The \<^verbatim>\<open>try\<close> block (lines 85 to 127): \<open>Some err\<close> when it throws \<open>err\<close>, \<open>None\<close>
  when it returns. \<open>make_row\<close> is reached only with the three fields truthy.
\<close>

definition try_block :: "env \<Rightarrow> request \<Rightarrow> world \<Rightarrow> js_error option \<times> world" where
  "try_block e req w =
     (let fs = (case files req of None \<Rightarrow> [] | Some xs \<Rightarrow> xs) in
      if length fs = 0 then
        (None, respond 400 (Failure ''Hech qanday rasm yuklanmadi.'') w)
      else if length fs > 10 then
        (None, respond 400 (Failure ''Maksimal 10 ta rasm ruxsat etiladi.'') w)
      else
        let totalSize = foldl (\<lambda>s f. s + size_bytes f) 0 fs in
        if totalSize > 100 * 1024 * 1024 then
          (None, respond 400 (Failure ''Fayllarning umumiy hajmi 100MB dan oshdi.'') w)
        else if \<not> truthy (firstName (body req)) \<or> \<not> truthy (lastName (body req))
                \<or> \<not> truthy (phone (body req)) then
          (None, respond 400
             (Failure (''Ism, familiya yoki telefon raqami to'' @ [CHR 0xCA, CHR 0xBB] @ ''liq emas.''))
             (forEach_unlink fs w))
        else
          case upload_loop e 0 fs [] w of
            (Some err, uploaded, w1) \<Rightarrow> (Some err, w1)
          | (None, uploaded, w1) \<Rightarrow>
              (case sheets_values_append e (make_row e (body req) uploaded) w1 of
                 (Some err, w2) \<Rightarrow> (Some err, w2)
               | (None, w2) \<Rightarrow> (None, respond 200 (Success uploaded) w2)))"

text \<open>The \<^verbatim>\<open>catch\<close> block (lines 129 to 132).\<close>

definition catch_block :: "js_error \<Rightarrow> request \<Rightarrow> world \<Rightarrow> world" where
  "catch_block err req w =
     (let w1 = w\<lparr>console := console w @ [ConsoleError ''Upload error:'' err]\<rparr>;
          w2 = (case files req of None \<Rightarrow> w1 | Some xs \<Rightarrow> forEach_unlink xs w1)
      in respond 500 (Failure (or_else (message err) ''Server xatosi'')) w2)"

text \<open>The handler of \<^verbatim>\<open>POST /upload\<close>.\<close>

definition upload_handler :: "env \<Rightarrow> request \<Rightarrow> world \<Rightarrow> world" where
  "upload_handler e req w =
     (case try_block e req w of
        (None, w') \<Rightarrow> w'
      | (Some err, w') \<Rightarrow> catch_block err req w')"

subsection \<open>The route\<close>

text \<open>
  The handler is registered behind multer: \<^verbatim>\<open>app.post('/upload', upload.array('images',
  10), ...)\<close> (line 83), with \<^verbatim>\<open>limits: { fileSize: 100 * 1024 * 1024, files: 10 }\<close>
  (line 28). multer passes a request on to the handler when it has at most 10 file
  parts and no file part is larger than the limit.
\<close>

definition multer_passes :: "request \<Rightarrow> bool" where
  "multer_passes req =
     (let fs = (case files req of None \<Rightarrow> [] | Some xs \<Rightarrow> xs)
      in length fs \<le> 10 \<and> list_all (\<lambda>f. size_bytes f \<le> 100 * 1024 * 1024) fs)"

text \<open>
  What a request to the route gets. When multer does not pass the request on, it hands
  an error to Express; \<^verbatim>\<open>server.js\<close> registers no error middleware, so the default
  error handler of Express answers with the given status and an HTML page, and the
  handler does not run.
\<close>

datatype endpoint_outcome = Handled world | ExpressErrorPage nat

definition upload_endpoint :: "env \<Rightarrow> request \<Rightarrow> world \<Rightarrow> endpoint_outcome" where
  "upload_endpoint e req w =
     (if multer_passes req then Handled (upload_handler e req w) else ExpressErrorPage 500)"

subsection \<open>Notions the statements use\<close>

text \<open>
  The upload of the file at position \<open>i\<close> succeeds: the client exists, and both the
  create call and the metadata fetch are resolved. The permission call is left out.
\<close>

definition upload_succeeds :: "env \<Rightarrow> nat \<Rightarrow> bool" where
  "upload_succeeds e i =
     (client_ready e \<and> \<not> isl (create_result e i) \<and> \<not> isl (get_result e i))"

text \<open>The object that a successful create call for file \<open>f\<close> at position \<open>i\<close> stores.\<close>

definition stored_object :: "env \<Rightarrow> nat \<Rightarrow> uploaded_file \<Rightarrow> drive_object" where
  "stored_object e i f =
     \<lparr>obj_id = projr (create_result e i), obj_name = originalname f,
      obj_parent = DRIVE_FOLDER_ID e, obj_mimeType = mimetype f\<rparr>"

text \<open>The entry of \<^verbatim>\<open>uploaded\<close> made from the metadata fetched for position \<open>i\<close>.\<close>

definition result_at :: "env \<Rightarrow> nat \<Rightarrow> upload_result" where
  "result_at e i = make_result (projr (get_result e i))"

text \<open>
  The remote calls of one pass through the loop body: three when the create call is
  resolved, the create call alone when it is rejected.
\<close>

definition file_calls :: "env \<Rightarrow> nat \<Rightarrow> uploaded_file \<Rightarrow> call list" where
  "file_calls e i f =
     (case create_result e i of
        Inl err \<Rightarrow> [DriveFilesCreate (originalname f) (DRIVE_FOLDER_ID e) (mimetype f) (path f)]
      | Inr fileId \<Rightarrow>
          [DriveFilesCreate (originalname f) (DRIVE_FOLDER_ID e) (mimetype f) (path f),
           DrivePermissionsCreate fileId ''reader'' ''anyone'',
           DriveFilesGet fileId ''id, name, webViewLink, webContentLink''])"

text \<open>\<^verbatim>\<open>req.files || []\<close>\<close>

definition req_files :: "request \<Rightarrow> uploaded_file list" where
  "req_files req = (case files req of None \<Rightarrow> [] | Some xs \<Rightarrow> xs)"

fun is_append :: "call \<Rightarrow> bool" where
  "is_append (SheetsValuesAppend _ _ _ _) = True"
| "is_append _ = False"


text \<open>
  The validation of the specification, in its words: the four checks in their order,
  and the first one that fails.
\<close>

datatype validation_error = NoFiles | TooManyFiles | PayloadTooLarge | MissingFields

definition first_failed_check :: "request \<Rightarrow> validation_error option" where
  "first_failed_check req =
     (let fs = (case files req of None \<Rightarrow> [] | Some xs \<Rightarrow> xs) in
      if \<not> 1 \<le> length fs then Some NoFiles
      else if \<not> length fs \<le> 10 then Some TooManyFiles
      else if \<not> sum_list (map size_bytes fs) \<le> 100 * 1024 * 1024 then Some PayloadTooLarge
      else if \<not> (truthy (firstName (body req)) \<and> truthy (lastName (body req))
                  \<and> truthy (phone (body req))) then Some MissingFields
      else None)"

text \<open>The message the handler sends for each of them (lines 86, 87, 89 and 94).\<close>

fun validation_message :: "validation_error \<Rightarrow> string" where
  "validation_message NoFiles = ''Hech qanday rasm yuklanmadi.''"
| "validation_message TooManyFiles = ''Maksimal 10 ta rasm ruxsat etiladi.''"
| "validation_message PayloadTooLarge = ''Fayllarning umumiy hajmi 100MB dan oshdi.''"
| "validation_message MissingFields =
     ''Ism, familiya yoki telefon raqami to'' @ [CHR 0xCA, CHR 0xBB] @ ''liq emas.''"

subsection \<open>Sample inputs\<close>

definition ex_file_a :: uploaded_file where
  "ex_file_a = \<lparr>originalname = ''a.png'', mimetype = ''image/png'', size_bytes = 1000,
                 path = ''tmp_uploads/a''\<rparr>"

definition ex_file_b :: uploaded_file where
  "ex_file_b = \<lparr>originalname = ''b.png'', mimetype = ''image/png'', size_bytes = 2000,
                 path = ''tmp_uploads/b''\<rparr>"

definition ex_file_c :: uploaded_file where
  "ex_file_c = \<lparr>originalname = ''c.jpg'', mimetype = ''image/jpeg'', size_bytes = 3000,
                 path = ''tmp_uploads/c''\<rparr>"

definition ex_body :: form_body where
  "ex_body = \<lparr>firstName = Some ''Ali'', lastName = Some ''Valiyev'',
               phone = Some ''+998901234567''\<rparr>"

definition ex_request :: request where
  "ex_request = \<lparr>files = Some [ex_file_a, ex_file_b, ex_file_c], body = ex_body\<rparr>"

definition ex_world :: world where
  "ex_world = \<lparr>drive_folder = [], spreadsheet = [],
                tmp_uploads = {''tmp_uploads/a'', ''tmp_uploads/b'', ''tmp_uploads/c''},
                calls = [], console = [], sent = [], streams = []\<rparr>"

text \<open>Two files of 60 MiB each: each is within multer's limit of 100 MiB for one file.\<close>

definition ex_big_request :: request where
  "ex_big_request =
     \<lparr>files = Some [ex_file_a\<lparr>size_bytes := 62914560\<rparr>, ex_file_b\<lparr>size_bytes := 62914560\<rparr>],
      body = ex_body\<rparr>"

text \<open>The identifiers and names the sample Drive answers with, by position.\<close>

definition ex_id :: "nat \<Rightarrow> string" where
  "ex_id i = (if i = 0 then ''id0'' else if i = 1 then ''id1'' else ''id2'')"

definition ex_name :: "nat \<Rightarrow> string" where
  "ex_name i = (if i = 0 then ''a.png'' else if i = 1 then ''b.png'' else ''c.jpg'')"

text \<open>
  Every call is resolved, but for the permission call of the second file; the first
  file alone has a view link.
\<close>

definition ex_env :: env where
  "ex_env =
     \<lparr>DRIVE_FOLDER_ID = ''folder'', SHEETS_ID = ''sheet'', client_ready = True,
      create_result = (\<lambda>i. Inr (ex_id i)),
      permission_result = (\<lambda>i. if i = 1 then Some (JsError (Some ''forbidden'')) else None),
      get_result = (\<lambda>i. Inr
        \<lparr>data_id = ex_id i, data_name = ex_name i,
         webViewLink = (if i = 0 then Some ''https://drive.google.com/file/d/id0/view'' else None)\<rparr>),
      append_result = None,
      now_iso = ''2024-05-01T10:00:00.000Z''\<rparr>"

text \<open>The same, with the create call of the second file rejected.\<close>

definition ex_env_create_fails :: env where
  "ex_env_create_fails =
     ex_env\<lparr>create_result :=
       (\<lambda>i. if i = 1 then Inl (JsError (Some ''quota exceeded'')) else create_result ex_env i)\<rparr>"

text \<open>
  The same as the first, with every metadata fetch rejected by an error that has no
  message.
\<close>

definition ex_env_no_message :: env where
  "ex_env_no_message = ex_env\<lparr>get_result := (\<lambda>i. Inl (JsError None))\<rparr>"

text \<open>The same as the first, before the Google clients have been assigned.\<close>

definition ex_env_not_ready :: env where
  "ex_env_not_ready = ex_env\<lparr>client_ready := False\<rparr>"

text \<open>One file of 100 MiB and one byte.\<close>

definition ex_huge_request :: request where
  "ex_huge_request = \<lparr>files = Some [ex_file_a\<lparr>size_bytes := 104857601\<rparr>], body = ex_body\<rparr>"

text \<open>The same as the first, with the append call rejected.\<close>

definition ex_env_append_fails :: env where
  "ex_env_append_fails = ex_env\<lparr>append_result := Some (JsError (Some ''sheet not found''))\<rparr>"

section \<open>Properties\<close>

subsection \<open>The local operations\<close>

lemma respond_fields [simp]:
  "sent (respond c b w) = sent w @ [\<lparr>status = c, json = b\<rparr>]"
  "drive_folder (respond c b w) = drive_folder w"
  "spreadsheet (respond c b w) = spreadsheet w"
  "tmp_uploads (respond c b w) = tmp_uploads w"
  "calls (respond c b w) = calls w"
  "console (respond c b w) = console w"
  "streams (respond c b w) = streams w"
  by (simp_all add: respond_def)

lemma try_unlink_fields [simp]:
  "sent (try_unlink f w) = sent w"
  "drive_folder (try_unlink f w) = drive_folder w"
  "spreadsheet (try_unlink f w) = spreadsheet w"
  "tmp_uploads (try_unlink f w) = tmp_uploads w - {path f}"
  "calls (try_unlink f w) = calls w"
  "console (try_unlink f w) = console w"
  "streams (try_unlink f w) = streams w"
  by (simp_all add: try_unlink_def unlinkSync_def)

lemma forEach_unlink_Nil [simp]: "forEach_unlink [] w = w"
  by (simp add: forEach_unlink_def)

lemma forEach_unlink_Cons [simp]:
  "forEach_unlink (f # fs) w = forEach_unlink fs (try_unlink f w)"
  by (simp add: forEach_unlink_def)

lemma forEach_unlink_fields [simp]:
  "sent (forEach_unlink fs w) = sent w"
  "drive_folder (forEach_unlink fs w) = drive_folder w"
  "spreadsheet (forEach_unlink fs w) = spreadsheet w"
  "calls (forEach_unlink fs w) = calls w"
  "console (forEach_unlink fs w) = console w"
  "streams (forEach_unlink fs w) = streams w"
  by (induction fs arbitrary: w; simp)+

lemma forEach_unlink_tmp [simp]:
  "tmp_uploads (forEach_unlink fs w) = tmp_uploads w - path ` set fs"
  by (induction fs arbitrary: w) auto

lemma totalSize_sum_list:
  "foldl (\<lambda>s f. s + size_bytes f) a fs = a + sum_list (map size_bytes fs)"
  by (induction fs arbitrary: a) simp_all

subsection \<open>One pass through the loop body\<close>

lemma loop_body_sent [simp]: "sent (snd (loop_body e i f w)) = sent w"
  by (simp add: loop_body_def createReadStream_def take_over_stream_def
      drive_files_create_def drive_permissions_create_def
      drive_files_get_def Let_def split: sum.splits option.splits prod.splits)

lemma loop_body_spreadsheet [simp]: "spreadsheet (snd (loop_body e i f w)) = spreadsheet w"
  by (simp add: loop_body_def createReadStream_def take_over_stream_def
      drive_files_create_def drive_permissions_create_def
      drive_files_get_def Let_def split: sum.splits option.splits prod.splits)

lemma loop_body_create_fails:
  "client_ready e \<Longrightarrow> create_result e i = Inl err \<Longrightarrow>
   loop_body e i f w =
     (Inl err, w\<lparr>calls := calls w @
        [DriveFilesCreate (originalname f) (DRIVE_FOLDER_ID e) (mimetype f) (path f)]\<rparr>)"
  by (simp add: loop_body_def createReadStream_def take_over_stream_def
      drive_files_create_def)

lemma loop_body_succeeds:
  assumes "upload_succeeds e i"
  shows "fst (loop_body e i f w) = Inr (result_at e i)"
    and "tmp_uploads (snd (loop_body e i f w)) = tmp_uploads w - {path f}"
    and "calls (snd (loop_body e i f w)) = calls w @ file_calls e i f"
    and "drive_folder (snd (loop_body e i f w)) = drive_folder w @ [stored_object e i f]"
proof -
  from assms obtain fileId m where
    "client_ready e" "create_result e i = Inr fileId" "get_result e i = Inr m"
    by (cases "create_result e i"; cases "get_result e i"; simp add: upload_succeeds_def)
  then show "fst (loop_body e i f w) = Inr (result_at e i)"
    and "tmp_uploads (snd (loop_body e i f w)) = tmp_uploads w - {path f}"
    and "calls (snd (loop_body e i f w)) = calls w @ file_calls e i f"
    and "drive_folder (snd (loop_body e i f w)) = drive_folder w @ [stored_object e i f]"
    by (simp_all add: loop_body_def createReadStream_def take_over_stream_def
      drive_files_create_def drive_permissions_create_def
        drive_files_get_def file_calls_def result_at_def stored_object_def Let_def
        split: option.splits)
qed


subsection \<open>The loop\<close>

lemma upload_loop_sent [simp]: "sent (snd (snd (upload_loop e i fs up w))) = sent w"
proof (induction fs arbitrary: i up w)
  case Nil
  show ?case by simp
next
  case (Cons f fs)
  have "sent (snd (loop_body e i f w)) = sent w" by simp
  with Cons show ?case
    by (cases "loop_body e i f w") (auto split: sum.splits)
qed

lemma upload_loop_spreadsheet [simp]:
  "spreadsheet (snd (snd (upload_loop e i fs up w))) = spreadsheet w"
proof (induction fs arbitrary: i up w)
  case Nil
  show ?case by simp
next
  case (Cons f fs)
  have "spreadsheet (snd (loop_body e i f w)) = spreadsheet w" by simp
  with Cons show ?case
    by (cases "loop_body e i f w") (auto split: sum.splits)
qed

lemma upload_loop_append:
  "upload_loop e i (xs @ ys) up w =
     (case upload_loop e i xs up w of
        (None, up', w') \<Rightarrow> upload_loop e (i + length xs) ys up' w'
      | (Some err, up', w') \<Rightarrow> (Some err, up', w'))"
  by (induction xs arbitrary: i up w) (auto split: prod.splits sum.splits option.splits)

lemma upload_loop_all_succeed:
  assumes "\<forall>j<length fs. upload_succeeds e (i + j)"
  shows "upload_loop e i fs up w =
           (None, up @ map (\<lambda>j. result_at e (i + j)) [0..<length fs],
            snd (snd (upload_loop e i fs up w)))
         \<and> tmp_uploads (snd (snd (upload_loop e i fs up w))) = tmp_uploads w - path ` set fs
         \<and> calls (snd (snd (upload_loop e i fs up w))) =
               calls w @ concat (map (\<lambda>j. file_calls e (i + j) (fs ! j)) [0..<length fs])
         \<and> drive_folder (snd (snd (upload_loop e i fs up w))) =
               drive_folder w @ map (\<lambda>j. stored_object e (i + j) (fs ! j)) [0..<length fs]"
  using assms
proof (induction fs arbitrary: i up w)
  case Nil
  show ?case by simp
next
  case (Cons f fs)
  from Cons.prems have ok: "upload_succeeds e i" by auto
  from Cons.prems have rest: "\<forall>j<length fs. upload_succeeds e (Suc i + j)" by auto
  obtain r w1 where lb: "loop_body e i f w = (r, w1)" by (cases "loop_body e i f w")
  with loop_body_succeeds [OF ok, of f w]
  have r: "r = Inr (result_at e i)"
    and w1: "tmp_uploads w1 = tmp_uploads w - {path f}"
        "calls w1 = calls w @ file_calls e i f"
        "drive_folder w1 = drive_folder w @ [stored_object e i f]"
    by simp_all
  have step: "upload_loop e i (f # fs) up w = upload_loop e (Suc i) fs (up @ [result_at e i]) w1"
    by (simp add: lb r)
  from Cons.IH [OF rest, of "up @ [result_at e i]" w1] show ?case
    unfolding step by (auto simp: w1 map_upt_Suc simp del: upt_Suc)
qed

subsection \<open>The handler\<close>

lemma try_block_rejects:
  assumes "first_failed_check req = Some v"
  shows "try_block e req w =
           (None, respond 400 (Failure (validation_message v))
                    (if v = MissingFields then forEach_unlink (req_files req) w else w))"
  using assms
  by (auto simp add: try_block_def first_failed_check_def req_files_def Let_def
      totalSize_sum_list Suc_le_eq not_le split: if_splits option.splits)

lemma try_block_accepts:
  assumes "first_failed_check req = None" "files req = Some fs"
  shows "try_block e req w =
           (case upload_loop e 0 fs [] w of
              (Some err, uploaded, w1) \<Rightarrow> (Some err, w1)
            | (None, uploaded, w1) \<Rightarrow>
                (case sheets_values_append e (make_row e (body req) uploaded) w1 of
                   (Some err, w2) \<Rightarrow> (Some err, w2)
                 | (None, w2) \<Rightarrow> (None, respond 200 (Success uploaded) w2)))"
  using assms
  by (auto simp add: try_block_def first_failed_check_def Let_def
      totalSize_sum_list Suc_le_eq not_le split: if_splits)

lemma validation_message_inj: "validation_message v = validation_message v' \<Longrightarrow> v = v'"
  by (cases v; cases v'; simp)

lemma sheets_values_append_ready:
  assumes "client_ready e"
  shows "sheets_values_append e row w =
     (append_result e,
      w\<lparr>calls := calls w @ [SheetsValuesAppend (SHEETS_ID e) ''Sheet1!A:Z'' ''USER_ENTERED'' [row]],
        spreadsheet := (case append_result e of None \<Rightarrow> spreadsheet w @ [row] | Some err \<Rightarrow> spreadsheet w)\<rparr>)"
  using assms by (cases "append_result e") (simp_all add: sheets_values_append_def)

lemma sheets_values_append_sent [simp]: "sent (snd (sheets_values_append e row w)) = sent w"
  by (simp add: sheets_values_append_def Let_def split: option.splits)

lemma catch_block_fields [simp]:
  "sent (catch_block err req w) =
     sent w @ [\<lparr>status = 500, json = Failure (or_else (message err) ''Server xatosi'')\<rparr>]"
  "drive_folder (catch_block err req w) = drive_folder w"
  "spreadsheet (catch_block err req w) = spreadsheet w"
  "calls (catch_block err req w) = calls w"
  "tmp_uploads (catch_block err req w) = tmp_uploads w - path ` set (req_files req)"
  "streams (catch_block err req w) = streams w"
  by (simp_all add: catch_block_def req_files_def Let_def split: option.splits)

lemma accepted_has_file:
  assumes "first_failed_check req = None"
  shows "\<exists>fs. files req = Some fs \<and> fs \<noteq> []"
  using assms
  by (cases "files req") (auto simp add: first_failed_check_def Let_def split: if_splits)

text \<open>The handler when every upload succeeds.\<close>

lemma handler_all_uploaded:
  assumes valid: "first_failed_check req = None" and fs: "files req = Some fs"
    and ok: "\<forall>j<length fs. upload_succeeds e j"
  defines "ups \<equiv> map (result_at e) [0..<length fs]"
  defines "row \<equiv> make_row e (body req) ups"
  shows "sent (upload_handler e req w) =
           sent w @ [case append_result e of
                       None \<Rightarrow> \<lparr>status = 200, json = Success ups\<rparr>
                     | Some err \<Rightarrow> \<lparr>status = 500, json = Failure (or_else (message err) ''Server xatosi'')\<rparr>]"
    and "spreadsheet (upload_handler e req w) =
           (case append_result e of None \<Rightarrow> spreadsheet w @ [row] | Some err \<Rightarrow> spreadsheet w)"
    and "calls (upload_handler e req w) =
           calls w @ concat (map (\<lambda>j. file_calls e j (fs ! j)) [0..<length fs])
             @ [SheetsValuesAppend (SHEETS_ID e) ''Sheet1!A:Z'' ''USER_ENTERED'' [row]]"
    and "drive_folder (upload_handler e req w) =
           drive_folder w @ map (\<lambda>j. stored_object e j (fs ! j)) [0..<length fs]"
    and "tmp_uploads (upload_handler e req w) = tmp_uploads w - path ` set fs"
proof -
  from accepted_has_file [OF valid] fs have "fs \<noteq> []" by auto
  with ok have "upload_succeeds e 0" by simp
  then have ready: "client_ready e" by (simp add: upload_succeeds_def)
  define w1 where "w1 = snd (snd (upload_loop e 0 fs [] w))"
  have "\<forall>j<length fs. upload_succeeds e (0 + j)" using ok by simp
  note all = upload_loop_all_succeed [OF this, of "[]" w]
  have loop: "upload_loop e 0 fs [] w = (None, ups, w1)"
    using all by (simp add: w1_def ups_def)
  have w1: "tmp_uploads w1 = tmp_uploads w - path ` set fs"
      "calls w1 = calls w @ concat (map (\<lambda>j. file_calls e j (fs ! j)) [0..<length fs])"
      "drive_folder w1 = drive_folder w @ map (\<lambda>j. stored_object e j (fs ! j)) [0..<length fs]"
    using all by (simp_all add: w1_def)
  have w1': "sent w1 = sent w" "spreadsheet w1 = spreadsheet w"
    using upload_loop_sent [of e 0 fs "[]" w] upload_loop_spreadsheet [of e 0 fs "[]" w]
    by (simp_all add: loop)
  have tb: "try_block e req w =
      (case sheets_values_append e row w1 of
         (Some err, w2) \<Rightarrow> (Some err, w2)
       | (None, w2) \<Rightarrow> (None, respond 200 (Success ups) w2))"
    by (simp add: try_block_accepts [OF valid fs] loop row_def)
  show "sent (upload_handler e req w) =
           sent w @ [case append_result e of
                       None \<Rightarrow> \<lparr>status = 200, json = Success ups\<rparr>
                     | Some err \<Rightarrow> \<lparr>status = 500, json = Failure (or_else (message err) ''Server xatosi'')\<rparr>]"
    and "spreadsheet (upload_handler e req w) =
           (case append_result e of None \<Rightarrow> spreadsheet w @ [row] | Some err \<Rightarrow> spreadsheet w)"
    and "calls (upload_handler e req w) =
           calls w @ concat (map (\<lambda>j. file_calls e j (fs ! j)) [0..<length fs])
             @ [SheetsValuesAppend (SHEETS_ID e) ''Sheet1!A:Z'' ''USER_ENTERED'' [row]]"
    and "drive_folder (upload_handler e req w) =
           drive_folder w @ map (\<lambda>j. stored_object e j (fs ! j)) [0..<length fs]"
    and "tmp_uploads (upload_handler e req w) = tmp_uploads w - path ` set fs"
    by (cases "append_result e";
        auto simp add: upload_handler_def tb sheets_values_append_ready [OF ready] w1 w1'
          req_files_def fs)+
qed

text \<open>The handler when the create call is rejected at position \<open>k\<close>, after \<open>k\<close> uploads.\<close>

lemma handler_create_rejected:
  assumes valid: "first_failed_check req = None" and fs: "files req = Some fs"
    and k: "k < length fs" and ok: "\<forall>j<k. upload_succeeds e j"
    and ready: "client_ready e" and rej: "create_result e k = Inl err"
  shows "try_block e req w = (Some err, snd (try_block e req w))"
    and "sent (snd (try_block e req w)) = sent w"
    and "spreadsheet (snd (try_block e req w)) = spreadsheet w"
    and "tmp_uploads (snd (try_block e req w)) = tmp_uploads w - path ` set (take k fs)"
    and "calls (snd (try_block e req w)) =
           calls w @ concat (map (\<lambda>j. file_calls e j (fs ! j)) [0..<k])
             @ [DriveFilesCreate (originalname (fs ! k)) (DRIVE_FOLDER_ID e)
                  (mimetype (fs ! k)) (path (fs ! k))]"
    and "drive_folder (snd (try_block e req w)) =
           drive_folder w @ map (\<lambda>j. stored_object e j (fs ! j)) [0..<k]"
proof -
  let ?xs = "take k fs"
  have len: "length ?xs = k" using k by simp
  have mn: "min (length fs) k = k" using k by simp
  let ?ys = "fs ! k # drop (Suc k) fs"
  have split: "?xs @ ?ys = fs"
    using id_take_nth_drop [OF k] by simp
  have nth: "\<And>j. j < k \<Longrightarrow> ?xs ! j = fs ! j" by simp
  have m1: "map (\<lambda>j. file_calls e j (?xs ! j)) [0..<k] = map (\<lambda>j. file_calls e j (fs ! j)) [0..<k]"
    by (rule map_cong) simp_all
  have m2: "map (\<lambda>j. stored_object e j (?xs ! j)) [0..<k] = map (\<lambda>j. stored_object e j (fs ! j)) [0..<k]"
    by (rule map_cong) simp_all
  define w1 where "w1 = snd (snd (upload_loop e 0 ?xs [] w))"
  have "\<forall>j<length ?xs. upload_succeeds e (0 + j)" using ok len by simp
  note all = upload_loop_all_succeed [OF this, of "[]" w]
  have loop: "upload_loop e 0 ?xs [] w = (None, map (result_at e) [0..<k], w1)"
    using all by (simp add: w1_def mn)
  have w1: "tmp_uploads w1 = tmp_uploads w - path ` set ?xs"
      "calls w1 = calls w @ concat (map (\<lambda>j. file_calls e j (fs ! j)) [0..<k])"
      "drive_folder w1 = drive_folder w @ map (\<lambda>j. stored_object e j (fs ! j)) [0..<k]"
    using all by (simp_all add: w1_def mn m1 m2)
  have w1': "sent w1 = sent w" "spreadsheet w1 = spreadsheet w"
    using upload_loop_sent [of e 0 ?xs "[]" w] upload_loop_spreadsheet [of e 0 ?xs "[]" w]
    by (simp_all add: loop)
  have "upload_loop e 0 (?xs @ ?ys) [] w =
          upload_loop e k ?ys (map (result_at e) [0..<k]) w1"
    by (simp only: upload_loop_append loop prod.case option.case len add_0)
  then have "upload_loop e 0 fs [] w = upload_loop e k ?ys (map (result_at e) [0..<k]) w1"
    unfolding split .
  then have whole: "upload_loop e 0 fs [] w =
      (Some err, map (result_at e) [0..<k],
       w1\<lparr>calls := calls w1 @
          [DriveFilesCreate (originalname (fs ! k)) (DRIVE_FOLDER_ID e)
             (mimetype (fs ! k)) (path (fs ! k))]\<rparr>)"
    by (simp add: loop_body_create_fails [OF ready rej])
  show "try_block e req w = (Some err, snd (try_block e req w))"
    and "sent (snd (try_block e req w)) = sent w"
    and "spreadsheet (snd (try_block e req w)) = spreadsheet w"
    and "tmp_uploads (snd (try_block e req w)) = tmp_uploads w - path ` set (take k fs)"
    and "calls (snd (try_block e req w)) =
           calls w @ concat (map (\<lambda>j. file_calls e j (fs ! j)) [0..<k])
             @ [DriveFilesCreate (originalname (fs ! k)) (DRIVE_FOLDER_ID e)
                  (mimetype (fs ! k)) (path (fs ! k))]"
    and "drive_folder (snd (try_block e req w)) =
           drive_folder w @ map (\<lambda>j. stored_object e j (fs ! j)) [0..<k]"
    by (simp_all add: try_block_accepts [OF valid fs] whole w1 w1')
qed

subsection \<open>The number of files processed\<close>



subsection \<open>The messages\<close>

lemma validation_message_nonempty: "validation_message v \<noteq> []"
  by (cases v) simp_all

lemma or_else_nonempty: "b \<noteq> [] \<Longrightarrow> or_else a b \<noteq> []"
  by (simp add: or_else_def split: option.splits)

subsection \<open>The streams\<close>

lemma loop_body_streams:
  "client_ready e \<Longrightarrow> streams (snd (loop_body e i f w)) = streams w"
  by (simp add: loop_body_def createReadStream_def take_over_stream_def
      drive_files_create_def drive_permissions_create_def drive_files_get_def Let_def
      split: sum.splits option.splits prod.splits)

lemma upload_loop_streams:
  "client_ready e \<Longrightarrow> streams (snd (snd (upload_loop e i fs up w))) = streams w"
proof (induction fs arbitrary: i up w)
  case Nil
  show ?case by simp
next
  case (Cons f fs)
  from Cons.prems have "streams (snd (loop_body e i f w)) = streams w"
    by (rule loop_body_streams)
  with Cons show ?case
    by (cases "loop_body e i f w") (auto split: sum.splits)
qed

lemma sheets_values_append_streams [simp]:
  "streams (snd (sheets_values_append e row w)) = streams w"
  by (simp add: sheets_values_append_def Let_def split: option.splits)

lemma upload_handler_streams:
  assumes "client_ready e"
  shows "streams (upload_handler e req w) = streams w"
proof (cases "first_failed_check req")
  case (Some v)
  then show ?thesis
    by (simp add: upload_handler_def try_block_rejects)
next
  case None
  from accepted_has_file [OF None] obtain fs where fs: "files req = Some fs" by blast
  obtain err uploaded w1 where loop: "upload_loop e 0 fs [] w = (err, uploaded, w1)"
    by (cases "upload_loop e 0 fs [] w")
  have s1: "streams w1 = streams w"
    using upload_loop_streams [OF assms, of 0 fs "[]" w] by (simp add: loop)
  obtain aerr w2 where
    app: "sheets_values_append e (make_row e (body req) uploaded) w1 = (aerr, w2)"
    by (cases "sheets_values_append e (make_row e (body req) uploaded) w1")
  have s2: "streams w2 = streams w"
    using sheets_values_append_streams [of e "make_row e (body req) uploaded" w1]
    by (simp add: app s1)
  show ?thesis
    by (cases err; cases aerr)
      (simp_all add: upload_handler_def try_block_accepts [OF None fs] loop app s1 s2)
qed

lemma no_streams_no_errors: "streams w = [] \<Longrightarrow> unhandled_errors w = []"
  by (simp add: unhandled_errors_def)

subsection \<open>One response\<close>

lemma handler_sends_one_response:
  "\<exists>r. sent (upload_handler e req w) = sent w @ [r]
      \<and> (case fst (try_block e req w) of
            None \<Rightarrow>
              (\<exists>ups. r = \<lparr>status = 200, json = Success ups\<rparr>)
              \<or> (\<exists>v. r = \<lparr>status = 400, json = Failure (validation_message v)\<rparr>)
          | Some err \<Rightarrow>
              r = \<lparr>status = 500,
                   json = Failure (case message err of
                                     None \<Rightarrow> ''Server xatosi''
                                   | Some m \<Rightarrow> if m \<noteq> [] then m else ''Server xatosi'')\<rparr>)
      \<and> (case json r of Success ups \<Rightarrow> True | Failure msg \<Rightarrow> msg \<noteq> [])"
proof (cases "first_failed_check req")
  case (Some v)
  then have "sent (upload_handler e req w) =
      sent w @ [\<lparr>status = 400, json = Failure (validation_message v)\<rparr>]"
    and "fst (try_block e req w) = None"
    by (simp_all add: upload_handler_def try_block_rejects)
  then show ?thesis
    using validation_message_nonempty [of v]
    by (intro exI [of _ "\<lparr>status = 400, json = Failure (validation_message v)\<rparr>"])
      (auto simp del: validation_message.simps)
next
  case None
  from accepted_has_file [OF None] obtain fs where fs: "files req = Some fs" by blast
  obtain err uploaded w1 where loop: "upload_loop e 0 fs [] w = (err, uploaded, w1)"
    by (cases "upload_loop e 0 fs [] w")
  have s1: "sent w1 = sent w" using upload_loop_sent [of e 0 fs "[]" w] by (simp add: loop)
  obtain aerr w2 where
    app: "sheets_values_append e (make_row e (body req) uploaded) w1 = (aerr, w2)"
    by (cases "sheets_values_append e (make_row e (body req) uploaded) w1")
  have s2: "sent w2 = sent w"
    using sheets_values_append_sent [of e "make_row e (body req) uploaded" w1]
    by (simp add: app s1)
  have ne: "or_else m ''Server xatosi'' \<noteq> []" for m
    by (rule or_else_nonempty) simp
  show ?thesis
  proof (cases err)
    case (Some x)
    then show ?thesis
      using ne [of "message x"]
      by (simp add: upload_handler_def try_block_accepts [OF None fs] loop s1)
        (simp add: or_else_def)
  next
    case noerr: None
    show ?thesis
    proof (cases aerr)
      case (Some x)
      then show ?thesis
        using ne [of "message x"]
        by (simp add: upload_handler_def try_block_accepts [OF None fs] loop noerr app s2)
          (simp add: or_else_def)
    next
      case None
      then show ?thesis
        by (simp add: upload_handler_def try_block_accepts [OF \<open>first_failed_check req = None\<close> fs]
            loop noerr app s2)
    qed
  qed
qed

subsection \<open>The row\<close>

lemma less_10_cases: "d < 10 \<Longrightarrow> d \<in> {0, 1, 2, 3, 4, 5, 6, 7, 8, 9::nat}"
  by auto

lemma digit_value_digit_char: "d < 10 \<Longrightarrow> digit_value (digit_char d) = d"
  using less_10_cases [of d] by (auto simp add: digit_value_def digit_char_def)

lemma parse_decimal_snoc: "parse_decimal (s @ [c]) = 10 * parse_decimal s + digit_value c"
  by (simp add: parse_decimal_def)

lemma parse_decimal_toString: "parse_decimal (toString n) = n"
proof (induction n rule: toString.induct)
  case (1 n)
  show ?case
  proof (cases "n < 10")
    case True
    then show ?thesis
      by (simp add: toString.simps [of n] parse_decimal_def digit_value_digit_char)
  next
    case False
    with 1 have "parse_decimal (toString (n div 10)) = n div 10" by simp
    with False show ?thesis
      by (simp add: toString.simps [of n] parse_decimal_snoc digit_value_digit_char)
  qed
qed

lemma digit_char_is_digit: "d < 10 \<Longrightarrow> digit_char d \<in> set ''0123456789''"
  using less_10_cases [of d] by (auto simp add: digit_char_def)

lemma toString_digits: "set (toString n) \<subseteq> set ''0123456789''"
proof (induction n rule: toString.induct)
  case (1 n)
  show ?case
  proof (cases "n < 10")
    case True
    then show ?thesis
      using digit_char_is_digit [of n] by (simp add: toString.simps [of n])
  next
    case False
    with 1 have "set (toString (n div 10)) \<subseteq> set ''0123456789''" by simp
    moreover have "digit_char (n mod 10) \<in> set ''0123456789''"
      by (rule digit_char_is_digit) simp
    ultimately show ?thesis using False
      by (simp add: toString.simps [of n])
  qed
qed

lemma filter_is_append_file_calls [simp]: "filter is_append (file_calls e i f) = []"
  by (simp add: file_calls_def split: sum.splits)

lemma filter_is_append_loop_calls [simp]:
  "filter is_append (concat (map (\<lambda>j. file_calls e j (g j)) xs)) = []"
  by (induction xs) simp_all

lemma make_row_cells:
  assumes "firstName b = Some fn" "lastName b = Some ln" "phone b = Some ph"
  shows "make_row e b ups =
           [now_iso e, fn, ln, ph, toString (length ups),
            join '' | '' (map name ups), join '' | '' (map link ups)]"
  using assms by (simp add: make_row_def)

lemma accepted_has_fields:
  assumes "first_failed_check req = None"
  shows "\<exists>fn ln ph. firstName (body req) = Some fn \<and> lastName (body req) = Some ln
           \<and> phone (body req) = Some ph"
  using assms
  by (auto simp add: first_failed_check_def truthy_def Let_def split: if_splits option.splits)

lemma loop_body_permission_rejected:
  assumes "upload_succeeds e i" and "permission_result e i = Some perr"
  shows "console (snd (loop_body e i f w)) =
           console w @ [ConsoleWarn ''Permission set failed'' (message perr)]"
proof -
  from assms(1) obtain fileId m where
    "client_ready e" "create_result e i = Inr fileId" "get_result e i = Inr m"
    by (cases "create_result e i"; cases "get_result e i"; simp add: upload_succeeds_def)
  with assms(2) show ?thesis
    by (simp add: loop_body_def createReadStream_def take_over_stream_def
      drive_files_create_def drive_permissions_create_def
        drive_files_get_def Let_def)
qed

subsection \<open>Facts about the sample inputs\<close>

text \<open>The sample request and world.\<close>

lemma ex_request_valid: "first_failed_check ex_request = None"
  by (simp add: first_failed_check_def truthy_def ex_request_def ex_body_def
      ex_file_a_def ex_file_b_def ex_file_c_def)

lemma ex_request_files: "files ex_request = Some [ex_file_a, ex_file_b, ex_file_c]"
  by (simp add: ex_request_def)

lemma ex_body_fields:
  "firstName (body ex_request) = Some ''Ali''" "lastName (body ex_request) = Some ''Valiyev''"
  "phone (body ex_request) = Some ''+998901234567''"
  by (simp_all add: ex_request_def ex_body_def)

lemma ex_world_fields:
  "sent ex_world = []" "spreadsheet ex_world = []" "calls ex_world = []"
  "drive_folder ex_world = []" "console ex_world = []" "streams ex_world = []"
  "tmp_uploads ex_world = {''tmp_uploads/a'', ''tmp_uploads/b'', ''tmp_uploads/c''}"
  by (simp_all add: ex_world_def)

lemma ex_file_fields:
  "originalname ex_file_a = ''a.png''" "mimetype ex_file_a = ''image/png''"
  "path ex_file_a = ''tmp_uploads/a''"
  "originalname ex_file_b = ''b.png''" "mimetype ex_file_b = ''image/png''"
  "path ex_file_b = ''tmp_uploads/b''"
  "originalname ex_file_c = ''c.jpg''" "mimetype ex_file_c = ''image/jpeg''"
  "path ex_file_c = ''tmp_uploads/c''"
  by (simp_all add: ex_file_a_def ex_file_b_def ex_file_c_def)

lemma toString_3: "toString 3 = ''3''" "toString (Suc (Suc (Suc 0))) = ''3''"
  by (simp_all add: toString.simps [of 3] toString.simps [of "Suc (Suc (Suc 0))"] digit_char_def)

text \<open>The environment in which every upload succeeds.\<close>

lemma ex_env_succeeds: "upload_succeeds ex_env j"
  by (simp add: upload_succeeds_def ex_env_def)

lemma ex_all_succeed:
  "\<forall>j<length [ex_file_a, ex_file_b, ex_file_c]. upload_succeeds ex_env j"
  by (simp add: ex_env_succeeds)

lemma ex_env_config:
  "DRIVE_FOLDER_ID ex_env = ''folder''" "SHEETS_ID ex_env = ''sheet''"
  by (simp_all add: ex_env_def)

lemma ex_env_append: "append_result ex_env = None" "now_iso ex_env = ''2024-05-01T10:00:00.000Z''"
  by (simp_all add: ex_env_def)

lemma ex_env_answers:
  "permission_result ex_env (Suc 0) = Some (JsError (Some ''forbidden''))"
  "get_result ex_env j = Inr
     \<lparr>data_id = ex_id j, data_name = ex_name j,
      webViewLink = (if j = 0 then Some ''https://drive.google.com/file/d/id0/view'' else None)\<rparr>"
  by (simp_all add: ex_env_def)

lemma ex_env_results:
  "result_at ex_env j =
     \<lparr>id' = ex_id j, name = ex_name j,
      link = (if j = 0 then ''https://drive.google.com/file/d/id0/view''
              else ''https://drive.google.com/uc?id='' @ ex_id j)\<rparr>"
  by (simp add: result_at_def make_result_def or_else_def ex_env_def)

lemma ex_env_calls:
  "file_calls ex_env j f =
     [DriveFilesCreate (originalname f) ''folder'' (mimetype f) (path f),
      DrivePermissionsCreate (ex_id j) ''reader'' ''anyone'',
      DriveFilesGet (ex_id j) ''id, name, webViewLink, webContentLink'']"
  by (simp add: file_calls_def ex_env_def)

lemma ex_env_objects:
  "stored_object ex_env j f =
     \<lparr>obj_id = ex_id j, obj_name = originalname f, obj_parent = ''folder'',
      obj_mimeType = mimetype f\<rparr>"
  by (simp add: stored_object_def ex_env_def)

text \<open>The environment in which the second create call is rejected.\<close>

lemma ex_env_create_fails_calls:
  "file_calls ex_env_create_fails 0 ex_file_a =
     [DriveFilesCreate ''a.png'' ''folder'' ''image/png'' ''tmp_uploads/a'',
      DrivePermissionsCreate ''id0'' ''reader'' ''anyone'',
      DriveFilesGet ''id0'' ''id, name, webViewLink, webContentLink'']"
  "stored_object ex_env_create_fails 0 ex_file_a =
     \<lparr>obj_id = ''id0'', obj_name = ''a.png'', obj_parent = ''folder'',
      obj_mimeType = ''image/png''\<rparr>"
  "DRIVE_FOLDER_ID ex_env_create_fails = ''folder''"
  by (simp_all add: file_calls_def stored_object_def ex_env_create_fails_def ex_env_def
      ex_id_def ex_file_a_def)



text \<open>The environment in which the append call is rejected.\<close>

lemma ex_env_append_fails_facts:
  "\<forall>j<length [ex_file_a, ex_file_b, ex_file_c]. upload_succeeds ex_env_append_fails j"
  "append_result ex_env_append_fails = Some (JsError (Some ''sheet not found''))"
  "stored_object ex_env_append_fails j f = stored_object ex_env j f"
  by (simp_all add: upload_succeeds_def stored_object_def ex_env_append_fails_def ex_env_def)

text \<open>The environment in which the metadata fetch is rejected without a message.\<close>

lemma ex_env_no_message_throws:
  "fst (try_block ex_env_no_message ex_request ex_world) = Some (JsError None)"
  by (simp add: try_block_accepts [OF ex_request_valid ex_request_files] loop_body_def
      drive_files_create_def drive_permissions_create_def drive_files_get_def
      ex_env_no_message_def ex_env_def Let_def)

text \<open>The environment in which the clients are not assigned yet, and the large file.\<close>

lemma ex_env_not_ready_handled:
  "sent (upload_handler ex_env_not_ready ex_request ex_world) =
     [\<lparr>status = 500,
       json = Failure (''Cannot read properties of undefined (reading '' @ quoted ''files'' @ '')'')\<rparr>]"
  "streams (upload_handler ex_env_not_ready ex_request ex_world) = [''tmp_uploads/a'']"
  "tmp_uploads (upload_handler ex_env_not_ready ex_request ex_world) = {}"
  by (simp_all add: upload_handler_def try_block_accepts [OF ex_request_valid ex_request_files]
      loop_body_def createReadStream_def drive_files_create_def not_ready_error_def or_else_def
      quoted_def req_files_def ex_request_files ex_env_not_ready_def ex_env_def ex_world_fields
      ex_file_fields)

lemma ex_request_passes: "multer_passes ex_request"
  by (simp add: multer_passes_def ex_request_files ex_file_a_def ex_file_b_def ex_file_c_def)

lemma ex_huge_request_stopped: "\<not> multer_passes ex_huge_request"
  by (simp add: multer_passes_def ex_huge_request_def)

lemma ex_env_no_message_ready: "client_ready ex_env_no_message"
  by (simp add: ex_env_no_message_def ex_env_def)

section \<open>The claims\<close>

text \<open>
  Claim C1. The submission passes validation and the create call is rejected for the
  file at position \<open>k\<close> (the files before it were uploaded). Then the handler answers
  500 with a failure body, the spreadsheet is unchanged, the remote calls are those of
  the first \<open>k\<close> files followed by the one rejected create call (so no call is made
  for a later file, and no append call), the temporary files of the first \<open>k\<close> files
  are gone when the loop is left and those of all files after the \<^verbatim>\<open>catch\<close> block,
  and the \<open>k\<close> objects uploaded before are still in the Drive folder.
\<close>

theorem upload_failure_aborts_request:
  assumes "first_failed_check req = None" and "files req = Some fs"
    and "k < length fs" and "\<forall>j<k. upload_succeeds e j"
    and "client_ready e" and "create_result e k = Inl err"
  shows "sent (upload_handler e req w) =
           sent w @ [\<lparr>status = 500, json = Failure (or_else (message err) ''Server xatosi'')\<rparr>]
       \<and> spreadsheet (upload_handler e req w) = spreadsheet w
       \<and> calls (upload_handler e req w) =
           calls w @ concat (map (\<lambda>j. file_calls e j (fs ! j)) [0..<k])
             @ [DriveFilesCreate (originalname (fs ! k)) (DRIVE_FOLDER_ID e)
                  (mimetype (fs ! k)) (path (fs ! k))]
       \<and> tmp_uploads (snd (try_block e req w)) = tmp_uploads w - path ` set (take k fs)
       \<and> tmp_uploads (upload_handler e req w) = tmp_uploads w - path ` set fs
       \<and> drive_folder (upload_handler e req w) =
           drive_folder w @ map (\<lambda>j. stored_object e j (fs ! j)) [0..<k]"
proof -
  note r = handler_create_rejected [OF assms, of w]
  obtain w' where tb: "try_block e req w = (Some err, w')"
    using r(1) by blast
  have "path ` set (take k fs) \<subseteq> path ` set fs"
    by (intro image_mono set_take_subset)
  then have "tmp_uploads w - path ` set (take k fs) - path ` set fs = tmp_uploads w - path ` set fs"
    by blast
  with r tb show ?thesis
    by (simp add: upload_handler_def req_files_def assms(2))
qed

theorem upload_failure_aborts_request_witness:
  "sent (upload_handler ex_env_create_fails ex_request ex_world) =
     [\<lparr>status = 500, json = Failure ''quota exceeded''\<rparr>]
   \<and> spreadsheet (upload_handler ex_env_create_fails ex_request ex_world) = []
   \<and> calls (upload_handler ex_env_create_fails ex_request ex_world) =
       [DriveFilesCreate ''a.png'' ''folder'' ''image/png'' ''tmp_uploads/a'',
        DrivePermissionsCreate ''id0'' ''reader'' ''anyone'',
        DriveFilesGet ''id0'' ''id, name, webViewLink, webContentLink'',
        DriveFilesCreate ''b.png'' ''folder'' ''image/png'' ''tmp_uploads/b'']
   \<and> tmp_uploads (snd (try_block ex_env_create_fails ex_request ex_world)) =
       {''tmp_uploads/b'', ''tmp_uploads/c''}
   \<and> tmp_uploads (upload_handler ex_env_create_fails ex_request ex_world) = {}
   \<and> drive_folder (upload_handler ex_env_create_fails ex_request ex_world) =
       [\<lparr>obj_id = ''id0'', obj_name = ''a.png'', obj_parent = ''folder'',
         obj_mimeType = ''image/png''\<rparr>]"
proof -
  have k: "(1::nat) < length [ex_file_a, ex_file_b, ex_file_c]" by simp
  have ok: "\<forall>j<1. upload_succeeds ex_env_create_fails j"
    by (simp add: upload_succeeds_def ex_env_create_fails_def ex_env_def)
  have ready: "client_ready ex_env_create_fails"
    by (simp add: ex_env_create_fails_def ex_env_def)
  have rej: "create_result ex_env_create_fails 1 = Inl (JsError (Some ''quota exceeded''))"
    by (simp add: ex_env_create_fails_def ex_env_def)
  show ?thesis
    using upload_failure_aborts_request
      [OF ex_request_valid ex_request_files k ok ready rej, of ex_world]
    by (simp add: or_else_def ex_world_fields ex_file_fields ex_env_create_fails_calls)
qed

text \<open>
  Claim C2, at a submission that the claim covers and the handler treats otherwise: two
  files of 60 MiB each fail the total size check. The handler answers 400, and the two
  temporary files are still on the disk afterwards: lines 87 and 89 return without the
  unlinking that line 93 does for the fourth check and line 131 after an error.
\<close>

theorem oversized_payload_keeps_temp_files:
  "first_failed_check ex_big_request = Some PayloadTooLarge
   \<and> sent (upload_handler ex_env ex_big_request ex_world) =
        [\<lparr>status = 400, json = Failure ''Fayllarning umumiy hajmi 100MB dan oshdi.''\<rparr>]
   \<and> path ` set (req_files ex_big_request) = {''tmp_uploads/a'', ''tmp_uploads/b''}
   \<and> tmp_uploads (upload_handler ex_env ex_big_request ex_world) =
        {''tmp_uploads/a'', ''tmp_uploads/b'', ''tmp_uploads/c''}"
  by (simp add: upload_handler_def try_block_def first_failed_check_def req_files_def
      ex_big_request_def ex_world_def ex_body_def ex_file_a_def ex_file_b_def)

text \<open>
  Claim C3. The handler's checks are the four checks of the specification in their
  order: when \<open>v\<close> is the first check that fails, the handler answers 400 with the
  message of \<open>v\<close>, which no other check has, and makes no remote call (the call log,
  the Drive folder and the spreadsheet are unchanged).
\<close>

theorem validation_in_order:
  assumes "first_failed_check req = Some v"
  shows "sent (upload_handler e req w) =
           sent w @ [\<lparr>status = 400, json = Failure (validation_message v)\<rparr>]
       \<and> calls (upload_handler e req w) = calls w
       \<and> drive_folder (upload_handler e req w) = drive_folder w
       \<and> spreadsheet (upload_handler e req w) = spreadsheet w
       \<and> (\<forall>v'. validation_message v' = validation_message v \<longrightarrow> v' = v)"
  using assms validation_message_inj
  by (auto simp add: upload_handler_def try_block_rejects)

theorem validation_in_order_witness:
  "first_failed_check (ex_big_request\<lparr>body := ex_body\<lparr>phone := None\<rparr>\<rparr>) = Some PayloadTooLarge
   \<and> sent (upload_handler ex_env (ex_big_request\<lparr>body := ex_body\<lparr>phone := None\<rparr>\<rparr>) ex_world) =
        [\<lparr>status = 400, json = Failure ''Fayllarning umumiy hajmi 100MB dan oshdi.''\<rparr>]
   \<and> calls (upload_handler ex_env (ex_big_request\<lparr>body := ex_body\<lparr>phone := None\<rparr>\<rparr>) ex_world) = []
   \<and> drive_folder (upload_handler ex_env (ex_big_request\<lparr>body := ex_body\<lparr>phone := None\<rparr>\<rparr>) ex_world) = []
   \<and> spreadsheet (upload_handler ex_env (ex_big_request\<lparr>body := ex_body\<lparr>phone := None\<rparr>\<rparr>) ex_world) = []"
proof -
  have v: "first_failed_check (ex_big_request\<lparr>body := ex_body\<lparr>phone := None\<rparr>\<rparr>) = Some PayloadTooLarge"
    by (simp add: first_failed_check_def ex_big_request_def ex_file_a_def ex_file_b_def)
  show ?thesis
    using validation_in_order [OF v, of ex_env ex_world]
    by (simp add: v ex_world_fields)
qed



text \<open>
  Claim C5. When the submission passes validation and every upload succeeds, the
  handler makes exactly one append call, after the calls for the files: on the
  configured spreadsheet, range \<^verbatim>\<open>Sheet1!A:Z\<close>, value input option
  \<^verbatim>\<open>USER_ENTERED\<close>, with one row of seven cells: the time stamp read from the
  clock, the three text fields, the number of uploaded files in decimal digits, the
  joined names and the joined links. When the call is resolved the sheet has gained
  exactly that row.
\<close>

theorem one_row_of_seven_cells:
  assumes "first_failed_check req = None" and "files req = Some fs"
    and "\<forall>j<length fs. upload_succeeds e j"
    and "firstName (body req) = Some fn" and "lastName (body req) = Some ln"
    and "phone (body req) = Some ph"
  shows "let ups = map (result_at e) [0..<length fs];
             row = [now_iso e, fn, ln, ph, toString (length fs),
                    join '' | '' (map name ups), join '' | '' (map link ups)]
         in calls (upload_handler e req w) =
              calls w @ concat (map (\<lambda>j. file_calls e j (fs ! j)) [0..<length fs])
                @ [SheetsValuesAppend (SHEETS_ID e) ''Sheet1!A:Z'' ''USER_ENTERED'' [row]]
          \<and> length (filter is_append (calls (upload_handler e req w))) =
              Suc (length (filter is_append (calls w)))
          \<and> length row = 7
          \<and> parse_decimal (row ! 4) = length fs
          \<and> set (row ! 4) \<subseteq> set ''0123456789''
          \<and> spreadsheet (upload_handler e req w) =
              (case append_result e of
                 None \<Rightarrow> spreadsheet w @ [row]
               | Some err \<Rightarrow> spreadsheet w)"
proof -
  let ?ups = "map (result_at e) [0..<length fs]"
  have row: "make_row e (body req) ?ups =
      [now_iso e, fn, ln, ph, toString (length fs),
       join '' | '' (map name ?ups), join '' | '' (map link ?ups)]"
    using make_row_cells [OF assms(4-6), of e ?ups] by simp
  note h = handler_all_uploaded [OF assms(1-3), of w]
  have c: "calls (upload_handler e req w) =
      calls w @ concat (map (\<lambda>j. file_calls e j (fs ! j)) [0..<length fs])
        @ [SheetsValuesAppend (SHEETS_ID e) ''Sheet1!A:Z'' ''USER_ENTERED''
             [make_row e (body req) ?ups]]"
    by (rule h(3))
  have n: "length (filter is_append (calls (upload_handler e req w))) =
      Suc (length (filter is_append (calls w)))"
    unfolding c by simp
  have sp: "spreadsheet (upload_handler e req w) =
      (case append_result e of
         None \<Rightarrow> spreadsheet w @ [make_row e (body req) ?ups]
       | Some err \<Rightarrow> spreadsheet w)"
    by (rule h(2))
  have d: "parse_decimal (toString (length fs)) = length fs"
    "set (toString (length fs)) \<subseteq> set ''0123456789''"
    by (rule parse_decimal_toString, rule toString_digits)
  show ?thesis
    unfolding Let_def row [symmetric]
    using c n sp d by (simp add: row)
qed

theorem one_row_of_seven_cells_witness:
  "calls (upload_handler ex_env ex_request ex_world) =
     [DriveFilesCreate ''a.png'' ''folder'' ''image/png'' ''tmp_uploads/a'',
      DrivePermissionsCreate ''id0'' ''reader'' ''anyone'',
      DriveFilesGet ''id0'' ''id, name, webViewLink, webContentLink'',
      DriveFilesCreate ''b.png'' ''folder'' ''image/png'' ''tmp_uploads/b'',
      DrivePermissionsCreate ''id1'' ''reader'' ''anyone'',
      DriveFilesGet ''id1'' ''id, name, webViewLink, webContentLink'',
      DriveFilesCreate ''c.jpg'' ''folder'' ''image/jpeg'' ''tmp_uploads/c'',
      DrivePermissionsCreate ''id2'' ''reader'' ''anyone'',
      DriveFilesGet ''id2'' ''id, name, webViewLink, webContentLink'',
      SheetsValuesAppend ''sheet'' ''Sheet1!A:Z'' ''USER_ENTERED''
        [[''2024-05-01T10:00:00.000Z'', ''Ali'', ''Valiyev'', ''+998901234567'', ''3'',
          ''a.png | b.png | c.jpg'',
          ''https://drive.google.com/file/d/id0/view | https://drive.google.com/uc?id=id1 | https://drive.google.com/uc?id=id2'']]]
   \<and> spreadsheet (upload_handler ex_env ex_request ex_world) =
     [[''2024-05-01T10:00:00.000Z'', ''Ali'', ''Valiyev'', ''+998901234567'', ''3'',
       ''a.png | b.png | c.jpg'',
       ''https://drive.google.com/file/d/id0/view | https://drive.google.com/uc?id=id1 | https://drive.google.com/uc?id=id2'']]"
  using one_row_of_seven_cells
    [OF ex_request_valid ex_request_files ex_all_succeed ex_body_fields, of ex_world]
  by (simp add: Let_def ex_world_fields ex_env_calls ex_env_results ex_env_config ex_env_append
      ex_file_fields ex_id_def ex_name_def toString_3)

text \<open>
  Claim C6, as the code has it: the sixth and seventh cell of the row are the names and
  the links of the uploaded files in upload order, joined with the three characters
  space, vertical bar, space. With the bare vertical bar as delimiter the claim fails:
  for three files named a.png, b.png and c.jpg the cell is \<^verbatim>\<open>a.png | b.png | c.jpg\<close>,
  not \<^verbatim>\<open>a.png|b.png|c.jpg\<close>.
\<close>

theorem names_and_links_joined:
  assumes "first_failed_check req = None" and "files req = Some fs"
    and "\<forall>j<length fs. upload_succeeds e j"
  shows "\<exists>row. last (calls (upload_handler e req w)) =
                 SheetsValuesAppend (SHEETS_ID e) ''Sheet1!A:Z'' ''USER_ENTERED'' [row]
             \<and> spreadsheet (upload_handler e req w) =
                 (case append_result e of
                    None \<Rightarrow> spreadsheet w @ [row]
                  | Some err \<Rightarrow> spreadsheet w)
             \<and> length row = 7
             \<and> row ! 5 = join '' | '' (map (\<lambda>j. name (result_at e j)) [0..<length fs])
             \<and> row ! 6 = join '' | '' (map (\<lambda>j. link (result_at e j)) [0..<length fs])"
proof -
  from accepted_has_fields [OF assms(1)] obtain fn ln ph where
    b: "firstName (body req) = Some fn" "lastName (body req) = Some ln"
       "phone (body req) = Some ph"
    by blast
  let ?ups = "map (result_at e) [0..<length fs]"
  note h = handler_all_uploaded [OF assms, of w]
  have row: "make_row e (body req) ?ups =
      [now_iso e, fn, ln, ph, toString (length fs),
       join '' | '' (map name ?ups), join '' | '' (map link ?ups)]"
    using make_row_cells [OF b, of e ?ups] by simp
  have "last (calls (upload_handler e req w)) =
          SheetsValuesAppend (SHEETS_ID e) ''Sheet1!A:Z'' ''USER_ENTERED''
            [make_row e (body req) ?ups]"
    unfolding h(3) by simp
  moreover have "length (make_row e (body req) ?ups) = 7"
    "make_row e (body req) ?ups ! 5 = join '' | '' (map (\<lambda>j. name (result_at e j)) [0..<length fs])"
    "make_row e (body req) ?ups ! 6 = join '' | '' (map (\<lambda>j. link (result_at e j)) [0..<length fs])"
    unfolding row by (simp_all add: comp_def)
  ultimately show ?thesis using h(2) by blast
qed

theorem names_and_links_joined_witness:
  "last (calls (upload_handler ex_env ex_request ex_world)) =
     SheetsValuesAppend ''sheet'' ''Sheet1!A:Z'' ''USER_ENTERED''
       [last (spreadsheet (upload_handler ex_env ex_request ex_world))]
   \<and> last (spreadsheet (upload_handler ex_env ex_request ex_world)) ! 5 =
       ''a.png | b.png | c.jpg''
   \<and> last (spreadsheet (upload_handler ex_env ex_request ex_world)) ! 6 =
       ''https://drive.google.com/file/d/id0/view | https://drive.google.com/uc?id=id1 | https://drive.google.com/uc?id=id2''"
  using names_and_links_joined
    [OF ex_request_valid ex_request_files ex_all_succeed, of ex_world]
  by (auto simp add: ex_world_fields ex_env_results ex_env_config ex_env_append
      ex_id_def ex_name_def)

theorem bare_bar_delimiter_counterexample:
  "last (spreadsheet (upload_handler ex_env ex_request ex_world)) ! 5 = ''a.png | b.png | c.jpg''
   \<and> join ''|'' (map name [result_at ex_env 0, result_at ex_env 1, result_at ex_env 2]) =
       ''a.png|b.png|c.jpg''
   \<and> last (spreadsheet (upload_handler ex_env ex_request ex_world)) ! 5 \<noteq>
       join ''|'' (map name [result_at ex_env 0, result_at ex_env 1, result_at ex_env 2])"
proof -
  have "spreadsheet (upload_handler ex_env ex_request ex_world) =
      [make_row ex_env (body ex_request)
         (map (result_at ex_env) [0..<length [ex_file_a, ex_file_b, ex_file_c]])]"
    using handler_all_uploaded(2)
      [OF ex_request_valid ex_request_files ex_all_succeed, of ex_world]
    by (simp add: ex_world_fields ex_env_append)
  then show ?thesis
    by (simp add: make_row_cells [OF ex_body_fields] ex_env_results ex_id_def ex_name_def)
qed

text \<open>
  Claim C7. When the create call and the metadata fetch of the file at position \<open>i\<close>
  succeed and its permission call is rejected, the pass through the loop body throws
  nothing: it logs a warning and yields the entry of the file, whose link is the view
  link when the metadata has a non-empty one and else the URL made from the identifier.
  If moreover the submission is valid, every upload succeeds and the append call is
  resolved, the handler answers 200 with that entry at position \<open>i\<close> of
  \<^verbatim>\<open>uploaded\<close>.
\<close>

theorem permission_failure_not_fatal:
  assumes "upload_succeeds e i" and "permission_result e i = Some perr"
  shows "fst (loop_body e i f w) = Inr (result_at e i)
       \<and> console (snd (loop_body e i f w)) =
           console w @ [ConsoleWarn ''Permission set failed'' (message perr)]
       \<and> link (result_at e i) =
           (case webViewLink (projr (get_result e i)) of
              None \<Rightarrow> ''https://drive.google.com/uc?id='' @ id' (result_at e i)
            | Some l \<Rightarrow>
                if l \<noteq> [] then l else ''https://drive.google.com/uc?id='' @ id' (result_at e i))
       \<and> (first_failed_check req = None \<and> files req = Some fs \<and> i < length fs
            \<and> (\<forall>j<length fs. upload_succeeds e j) \<and> append_result e = None
          \<longrightarrow> sent (upload_handler e req w) =
                sent w @ [\<lparr>status = 200, json = Success (map (result_at e) [0..<length fs])\<rparr>]
              \<and> map (result_at e) [0..<length fs] ! i = result_at e i)"
proof -
  have "link (result_at e i) =
           (case webViewLink (projr (get_result e i)) of
              None \<Rightarrow> ''https://drive.google.com/uc?id='' @ id' (result_at e i)
            | Some l \<Rightarrow>
                if l \<noteq> [] then l else ''https://drive.google.com/uc?id='' @ id' (result_at e i))"
    by (simp add: result_at_def make_result_def or_else_def split: option.splits)
  moreover have "sent (upload_handler e req w) =
                sent w @ [\<lparr>status = 200, json = Success (map (result_at e) [0..<length fs])\<rparr>]
              \<and> map (result_at e) [0..<length fs] ! i = result_at e i"
    if "first_failed_check req = None" "files req = Some fs" "i < length fs"
      "\<forall>j<length fs. upload_succeeds e j" "append_result e = None"
    using handler_all_uploaded(1) [OF that(1,2,4), of w] that(3,5) by simp
  ultimately show ?thesis
    using loop_body_succeeds(1) [OF assms(1), of f w]
      loop_body_permission_rejected [OF assms, of f w]
    by blast
qed

theorem permission_failure_not_fatal_witness:
  "permission_result ex_env 1 = Some (JsError (Some ''forbidden''))
   \<and> fst (loop_body ex_env 1 ex_file_b ex_world) =
       Inr \<lparr>id' = ''id1'', name = ''b.png'', link = ''https://drive.google.com/uc?id=id1''\<rparr>
   \<and> console (snd (loop_body ex_env 1 ex_file_b ex_world)) =
       [ConsoleWarn ''Permission set failed'' (Some ''forbidden'')]
   \<and> sent (upload_handler ex_env ex_request ex_world) =
       [\<lparr>status = 200,
         json = Success
           [\<lparr>id' = ''id0'', name = ''a.png'', link = ''https://drive.google.com/file/d/id0/view''\<rparr>,
            \<lparr>id' = ''id1'', name = ''b.png'', link = ''https://drive.google.com/uc?id=id1''\<rparr>,
            \<lparr>id' = ''id2'', name = ''c.jpg'', link = ''https://drive.google.com/uc?id=id2''\<rparr>]\<rparr>]"
proof -
  have i: "(1::nat) < length [ex_file_a, ex_file_b, ex_file_c]" by simp
  have p: "permission_result ex_env 1 = Some (JsError (Some ''forbidden''))"
    using ex_env_answers(1) by simp
  from permission_failure_not_fatal
      [OF ex_env_succeeds p, of ex_file_b ex_world ex_request "[ex_file_a, ex_file_b, ex_file_c]"]
    ex_request_valid ex_request_files i ex_all_succeed ex_env_append(1)
  have "fst (loop_body ex_env 1 ex_file_b ex_world) = Inr (result_at ex_env 1)"
    and "console (snd (loop_body ex_env 1 ex_file_b ex_world)) =
           console ex_world @ [ConsoleWarn ''Permission set failed'' (message (JsError (Some ''forbidden'')))]"
    and "sent (upload_handler ex_env ex_request ex_world) =
           sent ex_world @ [\<lparr>status = 200,
              json = Success (map (result_at ex_env) [0..<length [ex_file_a, ex_file_b, ex_file_c]])\<rparr>]"
    by blast+
  then show ?thesis
    by (simp add: ex_env_answers(1) ex_world_fields ex_env_results ex_id_def ex_name_def)
qed

text \<open>
  Claim C8. When the submission passes validation, every upload succeeds and the append
  call is rejected with \<open>err\<close>, the handler answers 500 with the message of \<open>err\<close>
  (the fixed text when the message is missing or empty), the spreadsheet is unchanged,
  and every uploaded object is still in the Drive folder.
\<close>

theorem append_failure_fails_request:
  assumes "first_failed_check req = None" and "files req = Some fs"
    and "\<forall>j<length fs. upload_succeeds e j"
    and "append_result e = Some err"
  shows "sent (upload_handler e req w) =
           sent w @ [\<lparr>status = 500,
                      json = Failure (case message err of
                                        None \<Rightarrow> ''Server xatosi''
                                      | Some m \<Rightarrow> if m \<noteq> [] then m else ''Server xatosi'')\<rparr>]
       \<and> drive_folder (upload_handler e req w) =
           drive_folder w @ map (\<lambda>j. stored_object e j (fs ! j)) [0..<length fs]
       \<and> spreadsheet (upload_handler e req w) = spreadsheet w"
  using handler_all_uploaded [OF assms(1-3), of w] assms(4)
  by (simp add: or_else_def)

theorem append_failure_fails_request_witness:
  "sent (upload_handler ex_env_append_fails ex_request ex_world) =
     [\<lparr>status = 500, json = Failure ''sheet not found''\<rparr>]
   \<and> drive_folder (upload_handler ex_env_append_fails ex_request ex_world) =
       [\<lparr>obj_id = ''id0'', obj_name = ''a.png'', obj_parent = ''folder'', obj_mimeType = ''image/png''\<rparr>,
        \<lparr>obj_id = ''id1'', obj_name = ''b.png'', obj_parent = ''folder'', obj_mimeType = ''image/png''\<rparr>,
        \<lparr>obj_id = ''id2'', obj_name = ''c.jpg'', obj_parent = ''folder'', obj_mimeType = ''image/jpeg''\<rparr>]
   \<and> spreadsheet (upload_handler ex_env_append_fails ex_request ex_world) = []"
  using append_failure_fails_request
    [OF ex_request_valid ex_request_files ex_env_append_fails_facts(1,2), of ex_world]
  by (simp add: ex_world_fields ex_env_append_fails_facts(3) ex_env_objects ex_file_fields
      ex_id_def)

text \<open>
  Claim C9, as the code has it: a request that multer passes on to the handler, handled
  when the Google clients exist, gets exactly one response from the handler. When the
  \<^verbatim>\<open>try\<close> block returns, it is 200 with a success body or 400 with the message of a
  validation error; when the block throws \<open>err\<close>, the \<^verbatim>\<open>catch\<close> block answers 500
  with the message of \<open>err\<close>, or with the fixed text when the message is missing or
  empty. A failure body never has an empty error text. The handler leaves no stream
  behind, so that no error is raised after it has answered. Stated for every request
  to the route, the claim fails: a file part of 100 MiB and one byte is answered by the
  error page of Express and not by the handler, and a request handled before the
  clients exist is answered with 500 and then followed by an uncaught error of the
  stream of line 100, whose file the \<^verbatim>\<open>catch\<close> block has unlinked.
\<close>

theorem one_structured_response_when_ready:
  assumes "multer_passes req" and "client_ready e"
  shows "upload_endpoint e req w = Handled (upload_handler e req w)
       \<and> (\<exists>r. sent (upload_handler e req w) = sent w @ [r]
             \<and> (case fst (try_block e req w) of
                   None \<Rightarrow>
                     (\<exists>ups. r = \<lparr>status = 200, json = Success ups\<rparr>)
                     \<or> (\<exists>v. r = \<lparr>status = 400, json = Failure (validation_message v)\<rparr>)
                 | Some err \<Rightarrow>
                     r = \<lparr>status = 500,
                          json = Failure (case message err of
                                            None \<Rightarrow> ''Server xatosi''
                                          | Some m \<Rightarrow> if m \<noteq> [] then m else ''Server xatosi'')\<rparr>)
             \<and> (case json r of Success ups \<Rightarrow> True | Failure msg \<Rightarrow> msg \<noteq> []))
       \<and> streams (upload_handler e req w) = streams w
       \<and> (streams w = [] \<longrightarrow> unhandled_errors (upload_handler e req w) = [])"
  using assms handler_sends_one_response [of e req w] upload_handler_streams [OF assms(2), of req w]
  by (simp add: upload_endpoint_def no_streams_no_errors)

theorem one_structured_response_when_ready_witness:
  "upload_endpoint ex_env_no_message ex_request ex_world =
     Handled (upload_handler ex_env_no_message ex_request ex_world)
   \<and> fst (try_block ex_env_no_message ex_request ex_world) = Some (JsError None)
   \<and> sent (upload_handler ex_env_no_message ex_request ex_world) =
       [\<lparr>status = 500, json = Failure ''Server xatosi''\<rparr>]
   \<and> streams (upload_handler ex_env_no_message ex_request ex_world) = []
   \<and> unhandled_errors (upload_handler ex_env_no_message ex_request ex_world) = []"
  using one_structured_response_when_ready
    [OF ex_request_passes ex_env_no_message_ready, of ex_world]
  by (auto simp add: ex_env_no_message_throws ex_world_fields)

theorem unstructured_or_uncaught_counterexample:
  "upload_endpoint ex_env ex_huge_request ex_world = ExpressErrorPage 500
   \<and> sent (upload_handler ex_env_not_ready ex_request ex_world) =
       [\<lparr>status = 500,
         json = Failure (''Cannot read properties of undefined (reading '' @ quoted ''files'' @ '')'')\<rparr>]
   \<and> unhandled_errors (upload_handler ex_env_not_ready ex_request ex_world) =
       [JsError (Some (''ENOENT: no such file or directory, open '' @ quoted ''tmp_uploads/a''))]"
  by (simp add: upload_endpoint_def ex_huge_request_stopped ex_env_not_ready_handled
      unhandled_errors_def)

text \<open>
  Claim C10. A request without \<^verbatim>\<open>req.files\<close> gets the answer of a request with an
  empty file list: 400 with the message for no files, and nothing is thrown.
\<close>

theorem absent_files_as_empty:
  "upload_handler e (req\<lparr>files := None\<rparr>) w =
     respond 400 (Failure ''Hech qanday rasm yuklanmadi.'') w
   \<and> upload_handler e (req\<lparr>files := Some []\<rparr>) w =
     respond 400 (Failure ''Hech qanday rasm yuklanmadi.'') w
   \<and> fst (try_block e (req\<lparr>files := None\<rparr>) w) = None"
  by (simp add: upload_handler_def try_block_def)

theorem absent_files_as_empty_witness:
  "sent (upload_handler ex_env (ex_request\<lparr>files := None\<rparr>) ex_world) =
     [\<lparr>status = 400, json = Failure ''Hech qanday rasm yuklanmadi.''\<rparr>]
   \<and> sent (upload_handler ex_env (ex_request\<lparr>files := Some []\<rparr>) ex_world) =
     [\<lparr>status = 400, json = Failure ''Hech qanday rasm yuklanmadi.''\<rparr>]
   \<and> fst (try_block ex_env (ex_request\<lparr>files := None\<rparr>) ex_world) = None"
  using absent_files_as_empty [of ex_env ex_request ex_world]
  by (simp add: ex_world_fields)

end
